theory Spec2Isabelle
  imports Main
begin

section \<open>Data model\<close>

text \<open>
  The backing relation has the columns \<open>key\<close>, \<open>value\<close>, \<open>type\<close> and \<open>expires_at\<close>
  (a Unix timestamp in whole seconds, \<open>NULL\<close> for no expiration). A relation is kept as
  an association list in the order in which a scan delivers its rows.
\<close>

type_synonym key = string

type_synonym instant = int \<comment> \<open>a \<open>time.Time\<close>: nanoseconds since the Unix epoch\<close>

type_synonym duration = int \<comment> \<open>a \<open>time.Duration\<close>: nanoseconds\<close>

type_synonym fault = string \<comment> \<open>an opaque failure reported by the storage collaborator\<close>

record row =
  val :: string
  kind :: string
  expires_at :: "int option"

type_synonym relation = "(key \<times> row) list"

text \<open>The operation context that \<open>fmt.Errorf\<close> wraps around a collaborator failure.\<close>

datatype opcontext =
    FailedSet key string \<comment> \<open>failed to set key K in table T\<close>
  | FailedGet key string \<comment> \<open>failed to get key K from table T\<close>
  | FailedDel key string \<comment> \<open>failed to delete key K from table T\<close>
  | FailedExists key string \<comment> \<open>failed to check existence of key K in table T\<close>
  | FailedTTL key string \<comment> \<open>failed to get TTL for key K in table T\<close>
  | FailedKeysQuery string string string \<comment> \<open>failed to query keys with pattern P (SQL LIKE L) from table T\<close>
  | FailedKeysIter string \<comment> \<open>error iterating through keys rows in table T\<close>
  | FailedOpen
  | FailedPing
  | FailedCreate string
  | Unwrapped \<comment> \<open>the collaborator's error, returned as it is\<close>

datatype error =
    ErrKeyNotFound
  | ErrWrongType
  | ErrEmptyTable \<comment> \<open>table name cannot be empty\<close>
  | ErrStorage opcontext fault

text \<open>Lines written to standard output or standard error.\<close>

datatype message =
    NilDbMsg \<comment> \<open>cleanup cannot start, database connection is nil\<close>
  | BadIntervalMsg \<comment> \<open>cleanup interval must be positive, cleanup not started\<close>
  | ScanErrorMsg string fault \<comment> \<open>error scanning key row in table T\<close>
  | CleanupErrorMsg string fault \<comment> \<open>background cleanup error for table T\<close>
  | CleanupDeletedMsg nat string \<comment> \<open>background cleanup deleted N expired keys from table T\<close>

text \<open>
  The \<open>Store\<close> struct: \<open>db\<close> is the handle (\<open>None\<close> is a nil pointer), \<open>table\<close> the
  table name, \<open>cancelled\<close> the state of \<open>ctx\<close>. The goroutines the store has started are
  part of the state: \<open>pending\<close> lists the keys of the detached \<open>go s.Del(key)\<close> calls
  that have not run yet, \<open>sweepers\<close> the intervals of the cleanup goroutines started by
  \<open>RunCleanup\<close>. \<open>out\<close> collects what the store has printed.
\<close>

record store =
  db :: "relation option"
  table :: string
  cancelled :: bool
  pending :: "key list"
  sweepers :: "duration list"
  out :: "message list"

text \<open>A call either returns or panics on the nil handle.\<close>

datatype 'a call = Panics | Returns 'a

section \<open>Time\<close>

text \<open>
  An instant is a number of nanoseconds since the Unix epoch and a duration a number of
  nanoseconds, both as integers. A \<open>time.Time\<close> keeps its seconds as an int64 counted
  from the year 1, which is \<open>unixToInternal\<close> seconds before the epoch, so
  \<open>time.Unix(sec, 0)\<close> adds \<open>unixToInternal\<close> to \<open>sec\<close> in int64: from
  \<open>sec = 2 ^ 63 - unixToInternal\<close> on the sum wraps round to the bottom of the int64
  range and the instant lies far in the past. The saturation of \<open>Sub\<close> at the ends of
  the 64-bit duration range is written out as well.
\<close>

definition second :: int where
  "second = 1000000000"

definition maxDuration :: duration where
  "maxDuration = 2 ^ 63 - 1"

definition minDuration :: duration where
  "minDuration = - (2 ^ 63)"

definition Unix :: "instant \<Rightarrow> int" where
  \<comment> \<open>\<open>t.Unix()\<close>: whole seconds since the epoch\<close>
  "Unix t = t div second"

definition unixToInternal :: int where
  \<comment> \<open>seconds from January 1 of the year 1 to January 1, 1970\<close>
  "unixToInternal = 62135596800"

definition time_Unix :: "int \<Rightarrow> instant" where
  \<comment> \<open>\<open>time.Unix(sec, 0)\<close>, whose seconds are \<open>sec + unixToInternal\<close> in int64; \<open>sec\<close> is
      an int64 and \<open>unixToInternal\<close> is positive, so the sum overflows only at the top\<close>
  "time_Unix sec =
     (let sum = sec + unixToInternal;
          ext = (if 2 ^ 63 \<le> sum then sum - 2 ^ 64 else sum)
      in (ext - unixToInternal) * second)"

definition Add :: "instant \<Rightarrow> duration \<Rightarrow> instant" where
  "Add t d = t + d"

definition Before :: "instant \<Rightarrow> instant \<Rightarrow> bool" where
  "Before t u = (t < u)"

definition Sub :: "instant \<Rightarrow> instant \<Rightarrow> duration" where
  \<comment> \<open>\<open>t.Sub(u)\<close> saturates at the largest and smallest duration\<close>
  "Sub t u =
     (let d = t - u
      in if d > maxDuration then maxDuration
         else if d < minDuration then minDuration
         else d)"

section \<open>Statements run by the storage collaborator\<close>

definition exec_upsert :: "relation \<Rightarrow> key \<Rightarrow> row \<Rightarrow> relation" where
  \<comment> \<open>\<open>INSERT OR REPLACE INTO t (key, value, type, expires_at) VALUES (?, ?, 'string', ?)\<close>\<close>
  "exec_upsert rel k r = filter (\<lambda>p. fst p \<noteq> k) rel @ [(k, r)]"

definition exec_delete :: "relation \<Rightarrow> key \<Rightarrow> relation" where
  \<comment> \<open>\<open>DELETE FROM t WHERE key = ?\<close>\<close>
  "exec_delete rel k = filter (\<lambda>p. fst p \<noteq> k) rel"

definition query_row :: "relation \<Rightarrow> key \<Rightarrow> row option" where
  \<comment> \<open>\<open>SELECT ... FROM t WHERE key = ?\<close>; \<open>None\<close> is \<open>sql.ErrNoRows\<close>\<close>
  "query_row rel k = map_of rel k"

definition exec_delete_expired :: "relation \<Rightarrow> int \<Rightarrow> relation" where
  \<comment> \<open>\<open>DELETE FROM t WHERE expires_at IS NOT NULL AND expires_at < ?\<close>\<close>
  "exec_delete_expired rel now =
     filter (\<lambda>p. \<not> (case expires_at (snd p) of None \<Rightarrow> False | Some e \<Rightarrow> e < now)) rel"

definition query_like :: "(string \<Rightarrow> key \<Rightarrow> bool) \<Rightarrow> relation \<Rightarrow> string \<Rightarrow> relation" where
  \<comment> \<open>\<open>SELECT key, type, expires_at FROM t WHERE key LIKE ? ESCAPE '\'\<close>; the engine's
      \<open>LIKE\<close> is the parameter \<open>like\<close>\<close>
  "query_like like rel pat = filter (\<lambda>p. like pat (fst p)) rel"

section \<open>Record access\<close>

text \<open>
  Each operation runs one statement. Its argument \<open>f\<close> is the failure of that statement
  (of \<open>db.Exec\<close>, or of \<open>QueryRow\<close> and \<open>Scan\<close> other than \<open>sql.ErrNoRows\<close>), if there is
  one; \<open>now\<close> is what \<open>time.Now()\<close> returns during the call. The result is the pair of
  return values, \<open>None\<close> for a nil error, together with the store after the call.
\<close>

definition Set ::
  "store \<Rightarrow> fault option \<Rightarrow> instant \<Rightarrow> key \<Rightarrow> string \<Rightarrow> duration \<Rightarrow> (error option \<times> store) call"
where
  "Set s f now k v ttl =
     (case db s of
        None \<Rightarrow> Panics
      | Some rel \<Rightarrow>
          (let expiresAt = (if ttl > 0 then Some (Unix (Add now ttl)) else None)
           in case f of
                Some e \<Rightarrow> Returns (Some (ErrStorage (FailedSet k (table s)) e), s)
              | None \<Rightarrow>
                  Returns (None,
                    s\<lparr>db := Some (exec_upsert rel k
                          \<lparr>val = v, kind = ''string'', expires_at = expiresAt\<rparr>)\<rparr>)))"

definition Get ::
  "store \<Rightarrow> fault option \<Rightarrow> instant \<Rightarrow> key \<Rightarrow> ((string \<times> error option) \<times> store) call"
where
  "Get s f now k =
     (case db s of
        None \<Rightarrow> Panics
      | Some rel \<Rightarrow>
          (case f of
             Some e \<Rightarrow> Returns (([], Some (ErrStorage (FailedGet k (table s)) e)), s)
           | None \<Rightarrow>
               (case query_row rel k of
                  None \<Rightarrow> Returns (([], Some ErrKeyNotFound), s)
                | Some r \<Rightarrow>
                    if kind r \<noteq> ''string'' then Returns (([], Some ErrWrongType), s)
                    else if (case expires_at r of
                               None \<Rightarrow> False
                             | Some e \<Rightarrow> Unix now > e)
                    then Returns (([], Some ErrKeyNotFound), s\<lparr>pending := pending s @ [k]\<rparr>)
                    else Returns ((val r, None), s))))"

definition Del :: "store \<Rightarrow> fault option \<Rightarrow> key \<Rightarrow> (error option \<times> store) call" where
  "Del s f k =
     (case db s of
        None \<Rightarrow> Panics
      | Some rel \<Rightarrow>
          (case f of
             Some e \<Rightarrow> Returns (Some (ErrStorage (FailedDel k (table s)) e), s)
           | None \<Rightarrow> Returns (None, s\<lparr>db := Some (exec_delete rel k)\<rparr>)))"

definition Exists ::
  "store \<Rightarrow> fault option \<Rightarrow> instant \<Rightarrow> key \<Rightarrow> ((bool \<times> error option) \<times> store) call"
where
  "Exists s f now k =
     (case db s of
        None \<Rightarrow> Panics
      | Some rel \<Rightarrow>
          (case f of
             Some e \<Rightarrow> Returns ((False, Some (ErrStorage (FailedExists k (table s)) e)), s)
           | None \<Rightarrow>
               (case query_row rel k of
                  None \<Rightarrow> Returns ((False, None), s)
                | Some r \<Rightarrow>
                    if (case expires_at r of
                          None \<Rightarrow> False
                        | Some e \<Rightarrow> Unix now > e)
                    then Returns ((False, None), s\<lparr>pending := pending s @ [k]\<rparr>)
                    else Returns ((True, None), s))))"

definition TTL ::
  "store \<Rightarrow> fault option \<Rightarrow> instant \<Rightarrow> key \<Rightarrow> ((duration \<times> error option) \<times> store) call"
where
  "TTL s f now k =
     (case db s of
        None \<Rightarrow> Panics
      | Some rel \<Rightarrow>
          (case f of
             Some e \<Rightarrow> Returns ((0, Some (ErrStorage (FailedTTL k (table s)) e)), s)
           | None \<Rightarrow>
               (case query_row rel k of
                  None \<Rightarrow> Returns ((0, Some ErrKeyNotFound), s)
                | Some r \<Rightarrow>
                    if kind r \<noteq> ''string'' then Returns ((0, Some ErrWrongType), s)
                    else
                      (case expires_at r of
                         None \<Rightarrow> Returns ((- 1, None), s)
                       | Some e \<Rightarrow>
                           (let expiryTime = time_Unix e
                            in if Before expiryTime now
                               then Returns ((0, Some ErrKeyNotFound),
                                      s\<lparr>pending := pending s @ [k]\<rparr>)
                               else Returns ((Sub expiryTime now, None), s))))))"

section \<open>Pattern translation\<close>

text \<open>
  \<open>strings.NewReplacer(oldnew...).Replace(s)\<close> for single-byte old strings: the input is
  read byte by byte, each byte that is an old string gives its new string (the first pair
  with that old string wins), every other byte is copied; the output is never read again.
\<close>

fun Replace :: "(char \<times> string) list \<Rightarrow> string \<Rightarrow> string" where
  "Replace oldnew [] = []"
| "Replace oldnew (c # cs) =
     (case map_of oldnew c of None \<Rightarrow> [c] | Some n \<Rightarrow> n) @ Replace oldnew cs"

definition globToSQLLike :: "string \<Rightarrow> string" where
  "globToSQLLike glob =
     Replace
       [(CHR ''%'', [CHR 0x5C, CHR ''%'']),
        (CHR ''_'', [CHR 0x5C, CHR ''_'']),
        (CHR ''*'', ''%''),
        (CHR ''?'', ''_'')]
       glob"

section \<open>Listing keys\<close>

text \<open>
  What the collaborator and the clock do during one call of \<open>Keys\<close>: \<open>query_fault\<close> is a
  failure of \<open>db.Query\<close>; \<open>scan_fault k\<close> a failure of \<open>rows.Scan\<close> on the row with key
  \<open>k\<close>; \<open>rows_err = Some (n, e)\<close> says that the iteration stops after \<open>n\<close> rows and
  \<open>rows.Err()\<close> is \<open>e\<close>; \<open>clock k\<close> is what \<open>time.Now()\<close> returns while the row with key
  \<open>k\<close> is examined (keys are unique in the relation).
\<close>

record keys_env =
  query_fault :: "fault option"
  scan_fault :: "key \<Rightarrow> fault option"
  rows_err :: "(nat \<times> fault) option"
  clock :: "key \<Rightarrow> instant"

text \<open>
  The steps of a call that touch the result set or start a goroutine, in program order.
\<close>

datatype event =
    RowScan key \<comment> \<open>\<open>rows.Next()\<close> and \<open>rows.Scan\<close> on the row with this key\<close>
  | Spawned key \<comment> \<open>\<open>go s.Del(key)\<close>\<close>

text \<open>
  \<open>Keys_loop\<close> is the \<open>for rows.Next()\<close> loop over the delivered rows, \<open>spawn_deletes\<close> the
  loop over \<open>keysToDelete\<close> after it. \<open>Keys_run\<close> is the body of \<open>Keys\<close>, returning the
  events of the call beside its result and the store; \<open>Keys\<close> drops the events.
\<close>

record scan_state =
  keys :: "key list"
  keysToDelete :: "key list"
  printed :: "message list"
  events :: "event list"

fun Keys_loop :: "keys_env \<Rightarrow> string \<Rightarrow> relation \<Rightarrow> scan_state \<Rightarrow> scan_state" where
  "Keys_loop env tbl [] st = st"
| "Keys_loop env tbl ((k, r) # rows) st =
     (let st1 = st\<lparr>events := events st @ [RowScan k]\<rparr>
      in case scan_fault env k of
           Some e \<Rightarrow>
             Keys_loop env tbl rows (st1\<lparr>printed := printed st1 @ [ScanErrorMsg tbl e]\<rparr>)
         | None \<Rightarrow>
             if kind r \<noteq> ''string'' then Keys_loop env tbl rows st1
             else if (case expires_at r of
                        None \<Rightarrow> False
                      | Some e \<Rightarrow> Unix (clock env k) > e)
             then Keys_loop env tbl rows (st1\<lparr>keysToDelete := keysToDelete st1 @ [k]\<rparr>)
             else Keys_loop env tbl rows (st1\<lparr>keys := keys st1 @ [k]\<rparr>))"

fun spawn_deletes :: "key list \<Rightarrow> store \<times> event list \<Rightarrow> store \<times> event list" where
  "spawn_deletes [] se = se"
| "spawn_deletes (k # ks) (s, ev) =
     spawn_deletes ks (s\<lparr>pending := pending s @ [k]\<rparr>, ev @ [Spawned k])"

definition Keys_run ::
  "(string \<Rightarrow> key \<Rightarrow> bool) \<Rightarrow> store \<Rightarrow> keys_env \<Rightarrow> string
     \<Rightarrow> ((key list \<times> error option) \<times> store \<times> event list) call"
where
  "Keys_run like s env pattern =
     (case db s of
        None \<Rightarrow> Panics
      | Some rel \<Rightarrow>
          (let sqlPattern = globToSQLLike pattern
           in case query_fault env of
                Some e \<Rightarrow>
                  Returns (([], Some (ErrStorage (FailedKeysQuery pattern sqlPattern (table s)) e)),
                    s, [])
              | None \<Rightarrow>
                  (let matched = query_like like rel sqlPattern;
                       delivered = (case rows_err env of
                                      None \<Rightarrow> matched
                                    | Some (n, e) \<Rightarrow> take n matched);
                       st = Keys_loop env (table s) delivered
                              \<lparr>keys = [], keysToDelete = [], printed = [], events = []\<rparr>;
                       s1 = s\<lparr>out := out s @ printed st\<rparr>
                   in case rows_err env of
                        Some (n, e) \<Rightarrow>
                          Returns (([], Some (ErrStorage (FailedKeysIter (table s)) e)),
                            s1, events st)
                      | None \<Rightarrow>
                          (let (s2, ev) = spawn_deletes (keysToDelete st) (s1, events st)
                           in Returns ((keys st, None), s2, ev)))))"

definition Keys ::
  "(string \<Rightarrow> key \<Rightarrow> bool) \<Rightarrow> store \<Rightarrow> keys_env \<Rightarrow> string
     \<Rightarrow> ((key list \<times> error option) \<times> store) call"
where
  "Keys like s env pattern =
     (case Keys_run like s env pattern of
        Panics \<Rightarrow> Panics
      | Returns (res, s', ev) \<Rightarrow> Returns (res, s'))"

section \<open>Goroutines\<close>

text \<open>
  \<open>RunCleanup\<close> returns nothing; the model returns the store with the line it printed or
  the goroutine it started. A started cleanup goroutine is kept by its interval, and
  \<open>cleanup_tick\<close> is one pass of its loop through the ticker branch. The lines such a
  goroutine prints when it starts and when it stops are not recorded.
\<close>

definition RunCleanup :: "store \<Rightarrow> duration \<Rightarrow> store" where
  "RunCleanup s interval =
     (if db s = None then s\<lparr>out := out s @ [NilDbMsg]\<rparr>
      else if interval \<le> 0 then s\<lparr>out := out s @ [BadIntervalMsg]\<rparr>
      else s\<lparr>sweepers := sweepers s @ [interval]\<rparr>)"

definition cleanup_tick :: "store \<Rightarrow> fault option \<Rightarrow> instant \<Rightarrow> store" where
  \<comment> \<open>the \<open>ticker.C\<close> branch of a cleanup goroutine\<close>
  "cleanup_tick s f t =
     (case db s of
        None \<Rightarrow> s
      | Some rel \<Rightarrow>
          (let now = Unix t
           in case f of
                Some e \<Rightarrow> s\<lparr>out := out s @ [CleanupErrorMsg (table s) e]\<rparr>
              | None \<Rightarrow>
                  (let rel' = exec_delete_expired rel now;
                       rowsAffected = length rel - length rel'
                   in if rowsAffected > 0
                      then s\<lparr>db := Some rel',
                             out := out s @ [CleanupDeletedMsg rowsAffected (table s)]\<rparr>
                      else s\<lparr>db := Some rel'\<rparr>)))"

definition run_detached :: "store \<Rightarrow> nat \<Rightarrow> fault option \<Rightarrow> store" where
  \<comment> \<open>the \<open>i\<close>-th pending \<open>go s.Del(key)\<close> runs; its error is dropped\<close>
  "run_detached s i f =
     (if i < length (pending s)
      then (let s' = s\<lparr>pending := take i (pending s) @ drop (Suc i) (pending s)\<rparr>
            in case Del s' f (pending s ! i) of
                 Panics \<Rightarrow> s'
               | Returns (err, s'') \<Rightarrow> s'')
      else s)"

section \<open>Lifecycle\<close>

text \<open>
  What \<open>Open\<close> meets: failures of \<open>sql.Open\<close>, of \<open>db.Ping\<close> and of the
  \<open>CREATE TABLE IF NOT EXISTS\<close> statement, and the relation of that name already in the
  database file, if there is one.
\<close>

record open_env =
  open_fault :: "fault option"
  ping_fault :: "fault option"
  create_fault :: "fault option"
  existing :: "relation option"

definition Open :: "open_env \<Rightarrow> string \<Rightarrow> string \<Rightarrow> error + store" where
  "Open env dbPath tbl =
     (if tbl = [] then Inl ErrEmptyTable
      else case open_fault env of
             Some e \<Rightarrow> Inl (ErrStorage FailedOpen e)
           | None \<Rightarrow>
               (case ping_fault env of
                  Some e \<Rightarrow> Inl (ErrStorage FailedPing e)
                | None \<Rightarrow>
                    (case create_fault env of
                       Some e \<Rightarrow> Inl (ErrStorage (FailedCreate tbl) e)
                     | None \<Rightarrow>
                         Inr \<lparr>db = Some (case existing env of None \<Rightarrow> [] | Some rel \<Rightarrow> rel),
                              table = tbl, cancelled = False, pending = [], sweepers = [],
                              out = []\<rparr>)))"

definition Close :: "store \<Rightarrow> fault option \<Rightarrow> error option \<times> store" where
  "Close s f =
     (let s' = s\<lparr>cancelled := True\<rparr>
      in if db s \<noteq> None then (map_option (ErrStorage Unwrapped) f, s') else (None, s'))"

section \<open>Histories of a store\<close>

text \<open>
  One step of a store's history: a call of the public surface with what the collaborator
  and the clock do during it, or a step of one of the store's goroutines.
\<close>

datatype op =
    OpSet "fault option" instant key string duration
  | OpGet "fault option" instant key
  | OpDel "fault option" key
  | OpExists "fault option" instant key
  | OpTTL "fault option" instant key
  | OpKeys keys_env string
  | OpRunCleanup duration
  | OpClose "fault option"
  | OpDetached nat "fault option"
  | OpTick "fault option" instant

definition state_after :: "store \<Rightarrow> ('r \<times> store) call \<Rightarrow> store" where
  "state_after s c = (case c of Panics \<Rightarrow> s | Returns (r, s') \<Rightarrow> s')"

fun step :: "(string \<Rightarrow> key \<Rightarrow> bool) \<Rightarrow> store \<Rightarrow> op \<Rightarrow> store" where
  "step like s (OpSet f now k v ttl) = state_after s (Set s f now k v ttl)"
| "step like s (OpGet f now k) = state_after s (Get s f now k)"
| "step like s (OpDel f k) = state_after s (Del s f k)"
| "step like s (OpExists f now k) = state_after s (Exists s f now k)"
| "step like s (OpTTL f now k) = state_after s (TTL s f now k)"
| "step like s (OpKeys env pattern) = state_after s (Keys like s env pattern)"
| "step like s (OpRunCleanup interval) = RunCleanup s interval"
| "step like s (OpClose f) = snd (Close s f)"
| "step like s (OpDetached i f) = run_detached s i f"
| "step like s (OpTick f t) = (if sweepers s \<noteq> [] then cleanup_tick s f t else s)"

definition run :: "(string \<Rightarrow> key \<Rightarrow> bool) \<Rightarrow> store \<Rightarrow> op list \<Rightarrow> store" where
  "run like s ops = foldl (step like) s ops"

definition err_of :: "(('a \<times> error option) \<times> store) call \<Rightarrow> error option" where
  "err_of c = (case c of Panics \<Rightarrow> None | Returns ((x, e), s) \<Rightarrow> e)"

definition all_string :: "store \<Rightarrow> bool" where
  "all_string s =
     (case db s of None \<Rightarrow> True | Some rel \<Rightarrow> list_all (\<lambda>p. kind (snd p) = ''string'') rel)"

text \<open>
  A step writes the key \<open>k\<close> when it is a \<open>Set\<close> or a \<open>Del\<close> of \<open>k\<close>, or the run of a
  detached deletion of \<open>k\<close>. \<open>no_write\<close> says that no step of a history does, and
  \<open>holds_permanent\<close> that the store holds the record \<open>r\<close> under \<open>k\<close> with no expiration.
\<close>

fun writes :: "key \<Rightarrow> store \<Rightarrow> op \<Rightarrow> bool" where
  "writes k s (OpSet f now k' v ttl) = (k' = k)"
| "writes k s (OpDel f k') = (k' = k)"
| "writes k s (OpDetached i f) = (i < length (pending s) \<and> pending s ! i = k)"
| "writes k s x = False"

fun no_write :: "(string \<Rightarrow> key \<Rightarrow> bool) \<Rightarrow> key \<Rightarrow> store \<Rightarrow> op list \<Rightarrow> bool" where
  "no_write like k s [] = True"
| "no_write like k s (x # xs) = (\<not> writes k s x \<and> no_write like k (step like s x) xs)"

definition holds_permanent :: "store \<Rightarrow> key \<Rightarrow> row \<Rightarrow> bool" where
  "holds_permanent s k r =
     (case db s of
        None \<Rightarrow> False
      | Some rel \<Rightarrow> query_row rel k = Some r \<and> expires_at r = None)"

section \<open>The specification's expiry policy and pattern rules\<close>

text \<open>
  The expiry policy as the specification words it: false when the timestamp is absent,
  true when it is present and strictly less than \<open>now\<close>; both are timestamps in seconds
  since the epoch.
\<close>

definition spec_isExpired :: "int option \<Rightarrow> int \<Rightarrow> bool" where
  "spec_isExpired expiresAt now = (case expiresAt of None \<Rightarrow> False | Some e \<Rightarrow> e < now)"

text \<open>
  The pattern rules as the specification words them: first escape the literal occurrences
  of the engine's two wildcard characters, then map \<open>*\<close> and \<open>?\<close> to the wildcards.
\<close>

definition spec_escape_literals :: "string \<Rightarrow> string" where
  "spec_escape_literals p =
     concat (map (\<lambda>c. if c = CHR ''%'' \<or> c = CHR ''_'' then [CHR 0x5C, c] else [c]) p)"

definition spec_map_wildcards :: "string \<Rightarrow> string" where
  "spec_map_wildcards p =
     map (\<lambda>c. if c = CHR ''*'' then CHR ''%'' else if c = CHR ''?'' then CHR ''_'' else c) p"

definition spec_translate :: "string \<Rightarrow> string" where
  "spec_translate p = spec_map_wildcards (spec_escape_literals p)"

text \<open>The rewriting of one character, as a table.\<close>

definition spec_translate_byte :: "char \<Rightarrow> string" where
  "spec_translate_byte c =
     (if c = CHR ''%'' then [CHR 0x5C, CHR ''%'']
      else if c = CHR ''_'' then [CHR 0x5C, CHR ''_'']
      else if c = CHR ''*'' then ''%''
      else if c = CHR ''?'' then ''_''
      else [c])"

section \<open>The rows a scan keeps, enqueues and reports\<close>

text \<open>
  A delivered row is included in the result of \<open>Keys\<close> when its scan succeeds, its kind is
  string and it is not expired when examined; it is enqueued for deletion when its scan
  succeeds, its kind is string and it is expired when examined.
\<close>

definition included :: "keys_env \<Rightarrow> key \<times> row \<Rightarrow> bool" where
  "included env p =
     (scan_fault env (fst p) = None \<and> kind (snd p) = ''string''
      \<and> \<not> spec_isExpired (expires_at (snd p)) (Unix (clock env (fst p))))"

definition enqueued :: "keys_env \<Rightarrow> key \<times> row \<Rightarrow> bool" where
  "enqueued env p =
     (scan_fault env (fst p) = None \<and> kind (snd p) = ''string''
      \<and> spec_isExpired (expires_at (snd p)) (Unix (clock env (fst p))))"

definition scan_messages :: "keys_env \<Rightarrow> string \<Rightarrow> relation \<Rightarrow> message list" where
  "scan_messages env tbl rows =
     concat (map (\<lambda>p. case scan_fault env (fst p) of
                         None \<Rightarrow> []
                       | Some e \<Rightarrow> [ScanErrorMsg tbl e]) rows)"

section \<open>What a caller observes\<close>

text \<open>
  The outcome of a call with the printed lines of the store it leaves set aside: the
  result, and every other part of the store.
\<close>

definition observe :: "('r \<times> store) call \<Rightarrow> ('r \<times> store) call" where
  "observe c = (case c of Panics \<Rightarrow> Panics | Returns (r, s') \<Rightarrow> Returns (r, s'\<lparr>out := []\<rparr>))"

section \<open>Example stores\<close>

text \<open>
  The store that \<open>Open\<close> returns for the table \<open>kv\<close> of a database file that holds the
  relation \<open>rel\<close> under that name.
\<close>

definition opened :: "relation \<Rightarrow> store" where
  "opened rel =
     \<lparr>db = Some rel, table = ''kv'', cancelled = False, pending = [], sweepers = [], out = []\<rparr>"

section \<open>Facts about the collaborator's statements and about time\<close>

lemma map_of_filter_fst_neq: "map_of (filter (\<lambda>p. fst p \<noteq> k) rel) k = None"
  by (induction rel) auto

lemma map_of_filter_fst_other:
  "k' \<noteq> k \<Longrightarrow> map_of (filter (\<lambda>p. fst p \<noteq> k) rel) k' = map_of rel k'"
  by (induction rel) auto

lemma query_row_upsert_same: "query_row (exec_upsert rel k r) k = Some r"
  by (simp add: query_row_def exec_upsert_def map_add_def map_of_filter_fst_neq)

lemma query_row_upsert_other:
  "k' \<noteq> k \<Longrightarrow> query_row (exec_upsert rel k r) k' = query_row rel k'"
  by (auto simp: query_row_def exec_upsert_def map_add_def map_of_filter_fst_other
      split: option.splits)

lemma query_row_delete_same: "query_row (exec_delete rel k) k = None"
  by (simp add: query_row_def exec_delete_def map_of_filter_fst_neq)

lemma exec_delete_idem: "exec_delete (exec_delete rel k) k = exec_delete rel k"
  by (simp add: exec_delete_def)

lemma second_pos: "0 < second"
  by (simp add: second_def)

lemma Unix_mono: "a \<le> b \<Longrightarrow> Unix a \<le> Unix b"
  by (simp add: Unix_def second_def zdiv_mono1)

lemma time_Unix_le: "time_Unix e \<le> e * second"
  by (simp add: time_Unix_def second_def Let_def)

lemma time_Unix_in_range: "e + unixToInternal < 2 ^ 63 \<Longrightarrow> time_Unix e = e * second"
  by (simp add: time_Unix_def Let_def)

lemma Unix_second_le: "Unix t * second \<le> t"
  by (simp add: Unix_def second_def)

lemma lt_Unix_iff: "e < Unix t \<longleftrightarrow> e * second + second \<le> t"
proof -
  have "t = 1000000000 * (t div 1000000000) + t mod 1000000000" by simp
  moreover have "0 \<le> t mod 1000000000" "t mod 1000000000 < 1000000000" by simp_all
  ultimately show ?thesis unfolding Unix_def second_def by linarith
qed

lemma time_Unix_Unix_le: "time_Unix (Unix t) \<le> t"
  using time_Unix_le [of "Unix t"] Unix_second_le [of t] by linarith

lemma lt_Unix_imp_Before: "e < Unix t \<Longrightarrow> time_Unix e < t"
  using lt_Unix_iff [of e t] time_Unix_le [of e] second_pos by linarith

lemma time_Unix_Unix_gt:
  "Unix t + unixToInternal < 2 ^ 63 \<Longrightarrow> t - second < time_Unix (Unix t)"
  using lt_Unix_iff [of "Unix t" t] time_Unix_in_range [of "Unix t"] by linarith

section \<open>Facts about the scan\<close>

lemma Keys_loop_eq:
  "Keys_loop env tbl rows st =
     \<lparr>keys = keys st @ map fst (filter (included env) rows),
      keysToDelete = keysToDelete st @ map fst (filter (enqueued env) rows),
      printed = printed st @ scan_messages env tbl rows,
      events = events st @ map (\<lambda>p. RowScan (fst p)) rows\<rparr>"
proof (induction rows arbitrary: st)
  case Nil
  show ?case by (simp add: scan_messages_def)
next
  case (Cons p rows)
  obtain k r where p: "p = (k, r)" by (cases p)
  show ?case
    unfolding p
    by (simp add: Cons.IH Let_def included_def enqueued_def spec_isExpired_def scan_messages_def
        split: option.splits)
qed

lemma spawn_deletes_eq:
  "spawn_deletes ks (s, ev) = (s\<lparr>pending := pending s @ ks\<rparr>, ev @ map Spawned ks)"
  by (induction ks arbitrary: s ev) simp_all

lemma Keys_run_no_err:
  assumes "db s = Some rel" and "query_fault env = None" and "rows_err env = None"
  shows "Keys_run like s env p =
           Returns
             ((map fst (filter (included env) (query_like like rel (globToSQLLike p))), None),
              s\<lparr>out := out s @ scan_messages env (table s) (query_like like rel (globToSQLLike p)),
                pending := pending s
                  @ map fst (filter (enqueued env) (query_like like rel (globToSQLLike p)))\<rparr>,
              map (\<lambda>p. RowScan (fst p)) (query_like like rel (globToSQLLike p))
                @ map Spawned
                    (map fst (filter (enqueued env) (query_like like rel (globToSQLLike p)))))"
  using assms by (simp add: Keys_run_def Keys_loop_eq spawn_deletes_eq Let_def)

lemma Keys_run_query_fault:
  assumes "db s = Some rel" and "query_fault env = Some e"
  shows "Keys_run like s env p =
           Returns (([], Some (ErrStorage (FailedKeysQuery p (globToSQLLike p) (table s)) e)),
             s, [])"
  using assms by (simp add: Keys_run_def Let_def)

lemma Keys_run_rows_err:
  assumes "db s = Some rel" and "query_fault env = None" and "rows_err env = Some (n, e)"
  shows "Keys_run like s env p =
           Returns (([], Some (ErrStorage (FailedKeysIter (table s)) e)),
             s\<lparr>out := out s
                  @ scan_messages env (table s) (take n (query_like like rel (globToSQLLike p)))\<rparr>,
             map (\<lambda>p. RowScan (fst p)) (take n (query_like like rel (globToSQLLike p))))"
  using assms by (simp add: Keys_run_def Keys_loop_eq Let_def)

lemma db_Keys: "db (state_after s (Keys like s env p)) = db s"
proof (cases "db s")
  case None
  then show ?thesis by (simp add: state_after_def Keys_def Keys_run_def)
next
  case (Some rel)
  show ?thesis
  proof (cases "query_fault env")
    case (Some e)
    show ?thesis
      by (simp add: state_after_def Keys_def Keys_run_query_fault [OF \<open>db s = Some rel\<close> Some])
  next
    case None
    show ?thesis
    proof (cases "rows_err env")
      case (Some ne)
      obtain n e where ne: "ne = (n, e)" by (cases ne)
      show ?thesis
        using Some
        by (simp add: state_after_def Keys_def ne
            Keys_run_rows_err [OF \<open>db s = Some rel\<close> None])
    next
      case no: None
      show ?thesis
        by (simp add: state_after_def Keys_def Keys_run_no_err [OF \<open>db s = Some rel\<close> None no])
    qed
  qed
qed

section \<open>Expiry on the read paths\<close>

text \<open>
  \<open>Exists\<close>, \<open>Get\<close> on a record of kind string, and the sweeper decide expiry by the
  specification's policy on whole seconds; so does \<open>Keys\<close>, by \<open>Keys_loop_eq\<close>.
\<close>

lemma get_exists_follow_policy:
  assumes "db s = Some rel" and "query_row rel k = Some r"
  shows "Exists s None now k =
           (if spec_isExpired (expires_at r) (Unix now)
            then Returns ((False, None), s\<lparr>pending := pending s @ [k]\<rparr>)
            else Returns ((True, None), s))"
    and "kind r = ''string'' \<Longrightarrow>
           Get s None now k =
             (if spec_isExpired (expires_at r) (Unix now)
              then Returns (([], Some ErrKeyNotFound), s\<lparr>pending := pending s @ [k]\<rparr>)
              else Returns ((val r, None), s))"
  using assms by (simp_all add: Exists_def Get_def spec_isExpired_def)

lemma sweeper_follows_policy:
  "exec_delete_expired rel (Unix t)
     = filter (\<lambda>p. \<not> spec_isExpired (expires_at (snd p)) (Unix t)) rel"
  by (simp add: exec_delete_expired_def spec_isExpired_def)


text \<open>
  The same departure at the top of the int64 range: for the largest timestamp the sum in
  \<open>time.Unix\<close> wraps, so \<open>TTL\<close> answers KeyNotFound and starts a deletion for a record
  that \<open>Get\<close> serves.
\<close>

lemma ttl_wrapped_timestamp:
  "Get (opened [(''k'', \<lparr>val = ''v'', kind = ''string'',
                         expires_at = Some 9223372036854775807\<rparr>)])
        None 5000000000 ''k''
      = Returns ((''v'', None),
          opened [(''k'', \<lparr>val = ''v'', kind = ''string'',
                           expires_at = Some 9223372036854775807\<rparr>)])
   \<and> TTL (opened [(''k'', \<lparr>val = ''v'', kind = ''string'',
                           expires_at = Some 9223372036854775807\<rparr>)])
        None 5000000000 ''k''
      = Returns ((0, Some ErrKeyNotFound),
          (opened [(''k'', \<lparr>val = ''v'', kind = ''string'',
                            expires_at = Some 9223372036854775807\<rparr>)])
            \<lparr>pending := [''k'']\<rparr>)"
  by (simp add: Unix_def second_def Get_def TTL_def opened_def query_row_def time_Unix_def
      unixToInternal_def Before_def)

section \<open>Wrong type\<close>

text \<open>
  C2 (as amended). Absent a collaborator failure, \<open>Get\<close> and \<open>TTL\<close> return the
  WrongType error exactly for a key that is present with a kind other than string,
  whether or not the record is logically expired: the kind is checked before the
  expiration. Returning WrongType leaves the store as it was: no record is deleted and no
  deletion is started. For a present record of kind string whose expiration timestamp is
  earlier than the current whole second, \<open>Get\<close> and \<open>TTL\<close> fail with KeyNotFound and
  start one detached deletion of the key.
\<close>

theorem wrong_type_precedes_expiry:
  assumes "db s = Some rel"
  shows "(err_of (Get s f now k) = Some ErrWrongType
            \<longleftrightarrow> f = None \<and> (\<exists>r. query_row rel k = Some r \<and> kind r \<noteq> ''string''))
         \<and> (err_of (TTL s f now k) = Some ErrWrongType
            \<longleftrightarrow> f = None \<and> (\<exists>r. query_row rel k = Some r \<and> kind r \<noteq> ''string''))
         \<and> (err_of (Get s f now k) = Some ErrWrongType
            \<longrightarrow> Get s f now k = Returns (([], Some ErrWrongType), s))
         \<and> (err_of (TTL s f now k) = Some ErrWrongType
            \<longrightarrow> TTL s f now k = Returns ((0, Some ErrWrongType), s))
         \<and> (\<forall>r e. query_row rel k = Some r \<and> kind r = ''string'' \<and> expires_at r = Some e
                \<and> e < Unix now
            \<longrightarrow> Get s None now k
                  = Returns (([], Some ErrKeyNotFound), s\<lparr>pending := pending s @ [k]\<rparr>)
                \<and> TTL s None now k
                  = Returns ((0, Some ErrKeyNotFound), s\<lparr>pending := pending s @ [k]\<rparr>))"
  using assms
  by (auto simp: Get_def TTL_def err_of_def Before_def lt_Unix_imp_Before Let_def
      split: option.splits if_splits)

text \<open>
  The theorem at a permanent record of kind list, and at a record of kind string that
  expired at second 1, read at second 10.
\<close>

theorem wrong_type_precedes_expiry_witness:
  "Get (opened [(''k'', \<lparr>val = ''v'', kind = ''list'', expires_at = None\<rparr>)]) None 0 ''k''
      = Returns (([], Some ErrWrongType),
          opened [(''k'', \<lparr>val = ''v'', kind = ''list'', expires_at = None\<rparr>)])
   \<and> TTL (opened [(''k'', \<lparr>val = ''v'', kind = ''list'', expires_at = None\<rparr>)]) None 0 ''k''
      = Returns ((0, Some ErrWrongType),
          opened [(''k'', \<lparr>val = ''v'', kind = ''list'', expires_at = None\<rparr>)])
   \<and> Get (opened [(''k'', \<lparr>val = ''v'', kind = ''string'', expires_at = Some 1\<rparr>)])
        None 10000000000 ''k''
      = Returns (([], Some ErrKeyNotFound),
          (opened [(''k'', \<lparr>val = ''v'', kind = ''string'', expires_at = Some 1\<rparr>)])
            \<lparr>pending := [''k'']\<rparr>)
   \<and> TTL (opened [(''k'', \<lparr>val = ''v'', kind = ''string'', expires_at = Some 1\<rparr>)])
        None 10000000000 ''k''
      = Returns ((0, Some ErrKeyNotFound),
          (opened [(''k'', \<lparr>val = ''v'', kind = ''string'', expires_at = Some 1\<rparr>)])
            \<lparr>pending := [''k'']\<rparr>)"
proof -
  have a1: "db (opened [(''k'', \<lparr>val = ''v'', kind = ''list'', expires_at = None\<rparr>)])
              = Some [(''k'', \<lparr>val = ''v'', kind = ''list'', expires_at = None\<rparr>)]"
    by (simp add: opened_def)
  have a2: "query_row [(''k'', \<lparr>val = ''v'', kind = ''list'', expires_at = None\<rparr>)] ''k''
              = Some \<lparr>val = ''v'', kind = ''list'', expires_at = None\<rparr>"
    by (simp add: query_row_def)
  have b1: "db (opened [(''k'', \<lparr>val = ''v'', kind = ''string'', expires_at = Some 1\<rparr>)])
              = Some [(''k'', \<lparr>val = ''v'', kind = ''string'', expires_at = Some 1\<rparr>)]"
    by (simp add: opened_def)
  have b2: "query_row [(''k'', \<lparr>val = ''v'', kind = ''string'', expires_at = Some 1\<rparr>)] ''k''
              = Some \<lparr>val = ''v'', kind = ''string'', expires_at = Some 1\<rparr>"
    by (simp add: query_row_def)
  have b3: "(1::int) < Unix 10000000000"
    by (simp add: Unix_def second_def)
  have b4: "pending (opened [(''k'', \<lparr>val = ''v'', kind = ''string'', expires_at = Some 1\<rparr>)])
              = []"
    by (simp add: opened_def)
  show ?thesis
    using wrong_type_precedes_expiry [OF a1, of None 0 "''k''"] a2
      wrong_type_precedes_expiry [OF b1, of None 10000000000 "''k''"] b2 b3 b4
    by simp
qed

text \<open>
  The claim as first stated fails at a record of kind list that expired at second 1, read
  at second 10: \<open>Get\<close> and \<open>TTL\<close> answer WrongType, not KeyNotFound.
\<close>

theorem wrong_type_when_expired_counterexample:
  "spec_isExpired (Some 1) (Unix 10000000000)
   \<and> Get (opened [(''k'', \<lparr>val = ''v'', kind = ''list'', expires_at = Some 1\<rparr>)])
        None 10000000000 ''k''
      = Returns (([], Some ErrWrongType),
          opened [(''k'', \<lparr>val = ''v'', kind = ''list'', expires_at = Some 1\<rparr>)])
   \<and> TTL (opened [(''k'', \<lparr>val = ''v'', kind = ''list'', expires_at = Some 1\<rparr>)])
        None 10000000000 ''k''
      = Returns ((0, Some ErrWrongType),
          opened [(''k'', \<lparr>val = ''v'', kind = ''list'', expires_at = Some 1\<rparr>)])"
  by (simp add: Unix_def second_def spec_isExpired_def Get_def TTL_def opened_def query_row_def)

section \<open>Listing keys\<close>

text \<open>
  C5. When no collaborator failure occurs, \<open>Keys\<close> examines the matched rows in the
  order delivered. A row whose kind is not string is left out of the result and nothing
  is deleted for it. Of the rows of kind string, each one that is expired when examined
  is left out of the result and its key is enqueued for a detached deletion; each other
  one has its key in the result. The relation itself is not changed by the call. The
  deletions are started only after the last row has been examined: in the call's events
  every \<open>Spawned\<close> comes after every \<open>RowScan\<close>.
\<close>

theorem keys_scan_then_spawn:
  assumes "db s = Some rel" and "query_fault env = None" and "rows_err env = None"
    and "\<forall>k. scan_fault env k = None"
  shows "Keys_run like s env p =
           Returns
             ((map fst
                 (filter (\<lambda>(k, r). kind r = ''string''
                            \<and> \<not> spec_isExpired (expires_at r) (Unix (clock env k)))
                    (query_like like rel (globToSQLLike p))),
               None),
              s\<lparr>pending := pending s
                  @ map fst
                      (filter (\<lambda>(k, r). kind r = ''string''
                                 \<and> spec_isExpired (expires_at r) (Unix (clock env k)))
                         (query_like like rel (globToSQLLike p)))\<rparr>,
              map (\<lambda>(k, r). RowScan k) (query_like like rel (globToSQLLike p))
                @ map Spawned
                    (map fst
                       (filter (\<lambda>(k, r). kind r = ''string''
                                  \<and> spec_isExpired (expires_at r) (Unix (clock env k)))
                          (query_like like rel (globToSQLLike p)))))"
proof -
  have inc: "included env = (\<lambda>(k, r). kind r = ''string''
               \<and> \<not> spec_isExpired (expires_at r) (Unix (clock env k)))"
    using assms(4) by (auto simp: included_def fun_eq_iff)
  have enq: "enqueued env = (\<lambda>(k, r). kind r = ''string''
               \<and> spec_isExpired (expires_at r) (Unix (clock env k)))"
    using assms(4) by (auto simp: enqueued_def fun_eq_iff)
  have msgs: "scan_messages env (table s) rows = []" for rows
    using assms(4) by (induction rows) (simp_all add: scan_messages_def)
  have ev: "(\<lambda>p. RowScan (fst p)) = (\<lambda>(k, r). RowScan k)"
    by (auto simp: fun_eq_iff)
  show ?thesis
    using Keys_run_no_err [OF assms(1-3), of like p]
    by (simp add: inc enq msgs ev)
qed

text \<open>
  The theorem on four rows read at second 10: a live string, an expired string, an
  expired list and a permanent string.
\<close>

theorem keys_scan_then_spawn_witness:
  "Keys_run (\<lambda>pat k. True)
     (opened [(''a'', \<lparr>val = ''1'', kind = ''string'', expires_at = Some 20\<rparr>),
              (''b'', \<lparr>val = ''2'', kind = ''string'', expires_at = Some 5\<rparr>),
              (''c'', \<lparr>val = ''3'', kind = ''list'', expires_at = Some 5\<rparr>),
              (''d'', \<lparr>val = ''4'', kind = ''string'', expires_at = None\<rparr>)])
     \<lparr>query_fault = None, scan_fault = (\<lambda>k. None), rows_err = None,
      clock = (\<lambda>k. 10000000000)\<rparr>
     ''*''
   = Returns
       (([''a'', ''d''], None),
        (opened [(''a'', \<lparr>val = ''1'', kind = ''string'', expires_at = Some 20\<rparr>),
                 (''b'', \<lparr>val = ''2'', kind = ''string'', expires_at = Some 5\<rparr>),
                 (''c'', \<lparr>val = ''3'', kind = ''list'', expires_at = Some 5\<rparr>),
                 (''d'', \<lparr>val = ''4'', kind = ''string'', expires_at = None\<rparr>)])
          \<lparr>pending := [''b'']\<rparr>,
        [RowScan ''a'', RowScan ''b'', RowScan ''c'', RowScan ''d'', Spawned ''b''])"
proof -
  have h1: "db (opened [(''a'', \<lparr>val = ''1'', kind = ''string'', expires_at = Some 20\<rparr>),
              (''b'', \<lparr>val = ''2'', kind = ''string'', expires_at = Some 5\<rparr>),
              (''c'', \<lparr>val = ''3'', kind = ''list'', expires_at = Some 5\<rparr>),
              (''d'', \<lparr>val = ''4'', kind = ''string'', expires_at = None\<rparr>)])
            = Some [(''a'', \<lparr>val = ''1'', kind = ''string'', expires_at = Some 20\<rparr>),
              (''b'', \<lparr>val = ''2'', kind = ''string'', expires_at = Some 5\<rparr>),
              (''c'', \<lparr>val = ''3'', kind = ''list'', expires_at = Some 5\<rparr>),
              (''d'', \<lparr>val = ''4'', kind = ''string'', expires_at = None\<rparr>)]"
    by (simp add: opened_def)
  have h2: "query_fault \<lparr>query_fault = None, scan_fault = (\<lambda>k. None), rows_err = None,
      clock = (\<lambda>k. 10000000000)\<rparr> = None"
    by simp
  have h3: "rows_err \<lparr>query_fault = None, scan_fault = (\<lambda>k. None), rows_err = None,
      clock = (\<lambda>k. 10000000000)\<rparr> = None"
    by simp
  have h4: "\<forall>k. scan_fault \<lparr>query_fault = None, scan_fault = (\<lambda>k. None), rows_err = None,
      clock = (\<lambda>k. 10000000000)\<rparr> k = None"
    by simp
  have h5: "pending (opened [(''a'', \<lparr>val = ''1'', kind = ''string'', expires_at = Some 20\<rparr>),
              (''b'', \<lparr>val = ''2'', kind = ''string'', expires_at = Some 5\<rparr>),
              (''c'', \<lparr>val = ''3'', kind = ''list'', expires_at = Some 5\<rparr>),
              (''d'', \<lparr>val = ''4'', kind = ''string'', expires_at = None\<rparr>)]) = []"
    by (simp add: opened_def)
  show ?thesis
    using keys_scan_then_spawn [OF h1 h2 h3 h4, of "\<lambda>pat k. True" "''*''"]
    by (simp add: h5 query_like_def spec_isExpired_def Unix_def second_def)
qed

section \<open>Collaborator failures\<close>

text \<open>
  C3 (as amended). A failure of the statement that \<open>Set\<close>, \<open>Get\<close>, \<open>Del\<close>, \<open>Exists\<close> or
  \<open>TTL\<close> runs is returned to the caller, wrapped with the operation, the key and the
  table, and the store is left as it was. \<open>Keys\<close> returns to its caller a failure of the
  query, wrapped with the pattern, and a failure of the iteration reported by
  \<open>rows.Err()\<close>, wrapped with the table; in both cases no key is returned and no deletion
  is started. A failure of \<open>rows.Scan\<close> on one row is not returned: it is printed, the row
  is skipped, and \<open>Keys\<close> goes on to return the keys of the other rows with no error.
\<close>

theorem storage_faults_propagate:
  assumes "db s = Some rel"
  shows "Set s (Some e) now k v ttl = Returns (Some (ErrStorage (FailedSet k (table s)) e), s)
   \<and> Get s (Some e) now k = Returns (([], Some (ErrStorage (FailedGet k (table s)) e)), s)
   \<and> Del s (Some e) k = Returns (Some (ErrStorage (FailedDel k (table s)) e), s)
   \<and> Exists s (Some e) now k
       = Returns ((False, Some (ErrStorage (FailedExists k (table s)) e)), s)
   \<and> TTL s (Some e) now k = Returns ((0, Some (ErrStorage (FailedTTL k (table s)) e)), s)
   \<and> (query_fault env = Some e \<longrightarrow>
        Keys like s env p
          = Returns (([], Some (ErrStorage (FailedKeysQuery p (globToSQLLike p) (table s)) e)),
              s))
   \<and> (query_fault env = None \<and> rows_err env = Some (n, e) \<longrightarrow>
        Keys like s env p
          = Returns (([], Some (ErrStorage (FailedKeysIter (table s)) e)),
              s\<lparr>out := out s @ scan_messages env (table s)
                                 (take n (query_like like rel (globToSQLLike p)))\<rparr>))
   \<and> (query_fault env = None \<and> rows_err env = None \<longrightarrow>
        Keys like s env p
          = Returns
              ((map fst (filter (included env) (query_like like rel (globToSQLLike p))), None),
               s\<lparr>out := out s
                    @ scan_messages env (table s) (query_like like rel (globToSQLLike p)),
                 pending := pending s
                    @ map fst
                        (filter (enqueued env) (query_like like rel (globToSQLLike p)))\<rparr>))"
  using assms
  by (simp add: Set_def Get_def Del_def Exists_def TTL_def Keys_def Keys_run_query_fault
      Keys_run_rows_err Keys_run_no_err Let_def)

text \<open>
  The theorem at a failing \<open>Get\<close>, a failing \<open>Set\<close>, a failing query and an iteration
  that fails after the first of two rows.
\<close>

theorem storage_faults_propagate_witness:
  "Get (opened []) (Some ''disk I/O error'') 0 ''k''
     = Returns (([], Some (ErrStorage (FailedGet ''k'' ''kv'') ''disk I/O error'')), opened [])
   \<and> Set (opened []) (Some ''disk I/O error'') 0 ''k'' ''v'' 0
     = Returns (Some (ErrStorage (FailedSet ''k'' ''kv'') ''disk I/O error''), opened [])
   \<and> Keys (\<lambda>pat k. True) (opened [])
        \<lparr>query_fault = Some ''disk I/O error'', scan_fault = (\<lambda>k. None), rows_err = None,
         clock = (\<lambda>k. 0)\<rparr> ''a*''
     = Returns (([], Some (ErrStorage (FailedKeysQuery ''a*'' ''a%'' ''kv'') ''disk I/O error'')),
         opened [])
   \<and> Keys (\<lambda>pat k. True)
        (opened [(''a'', \<lparr>val = ''1'', kind = ''string'', expires_at = None\<rparr>),
                 (''b'', \<lparr>val = ''2'', kind = ''string'', expires_at = None\<rparr>)])
        \<lparr>query_fault = None, scan_fault = (\<lambda>k. None),
         rows_err = Some (1, ''disk I/O error''), clock = (\<lambda>k. 0)\<rparr> ''*''
     = Returns (([], Some (ErrStorage (FailedKeysIter ''kv'') ''disk I/O error'')),
         opened [(''a'', \<lparr>val = ''1'', kind = ''string'', expires_at = None\<rparr>),
                 (''b'', \<lparr>val = ''2'', kind = ''string'', expires_at = None\<rparr>)])"
proof -
  have h0: "db (opened []) = Some []"
    by (simp add: opened_def)
  have h1: "db (opened [(''a'', \<lparr>val = ''1'', kind = ''string'', expires_at = None\<rparr>),
                 (''b'', \<lparr>val = ''2'', kind = ''string'', expires_at = None\<rparr>)])
            = Some [(''a'', \<lparr>val = ''1'', kind = ''string'', expires_at = None\<rparr>),
                 (''b'', \<lparr>val = ''2'', kind = ''string'', expires_at = None\<rparr>)]"
    by (simp add: opened_def)
  have t: "table (opened rel) = ''kv''" "out (opened rel) = []" for rel
    by (simp_all add: opened_def)
  have g: "globToSQLLike ''a*'' = ''a%''"
    by (simp add: globToSQLLike_def)
  show ?thesis
    using storage_faults_propagate [OF h0, of "''disk I/O error''" 0 "''k''" "''v''" 0
        "\<lparr>query_fault = Some ''disk I/O error'', scan_fault = (\<lambda>k. None), rows_err = None,
         clock = (\<lambda>k. 0)\<rparr>" "\<lambda>pat k. True" "''a*''" 0]
      storage_faults_propagate [OF h1, of "''disk I/O error''" 0 "''k''" "''v''" 0
        "\<lparr>query_fault = None, scan_fault = (\<lambda>k. None),
         rows_err = Some (1, ''disk I/O error''), clock = (\<lambda>k. 0)\<rparr>" "\<lambda>pat k. True" "''*''" 1]
    by (simp add: t g scan_messages_def)
qed

text \<open>
  The claim as first stated fails when the scan of the row \<open>a\<close> fails: \<open>Keys\<close> prints the
  failure and returns the partial result \<open>[b]\<close> with no error.
\<close>

theorem keys_skips_failed_row_counterexample:
  "Keys (\<lambda>pat k. True)
     (opened [(''a'', \<lparr>val = ''1'', kind = ''string'', expires_at = None\<rparr>),
              (''b'', \<lparr>val = ''2'', kind = ''string'', expires_at = None\<rparr>)])
     \<lparr>query_fault = None,
      scan_fault = (\<lambda>k. if k = ''a'' then Some ''unsupported Scan'' else None),
      rows_err = None, clock = (\<lambda>k. 0)\<rparr>
     ''*''
   = Returns
       (([''b''], None),
        (opened [(''a'', \<lparr>val = ''1'', kind = ''string'', expires_at = None\<rparr>),
                 (''b'', \<lparr>val = ''2'', kind = ''string'', expires_at = None\<rparr>)])
          \<lparr>out := [ScanErrorMsg ''kv'' ''unsupported Scan'']\<rparr>)"
  by (simp add: Keys_def Keys_run_def opened_def query_like_def Let_def)

section \<open>Set followed by a read\<close>

text \<open>
  C6 (as amended). For every key, value and TTL \<open>t > 0\<close>, \<open>Set\<close> at the instant \<open>n0\<close>
  succeeds and stores the expiry \<open>n0 + t\<close> cut down to a whole second. On the store it
  leaves, \<open>Get\<close> at any instant \<open>n1\<close> not after \<open>n0 + t\<close> returns the value with no
  error, and \<open>TTL\<close> at an instant \<open>n1\<close> from \<open>n0\<close> on that is strictly before the stored
  expiry returns, with no error, a strictly positive duration of at most \<open>t\<close>. The stored
  expiry is after \<open>n0\<close> whenever \<open>t\<close> is at least one second and the stored second is
  one that \<open>time.Unix\<close> takes without wrapping, as every second of a running clock is.
\<close>

theorem set_with_ttl_then_reads:
  assumes "db s = Some rel" and "0 < t"
  shows "\<exists>s1. Set s None n0 k v t = Returns (None, s1)
     \<and> (n1 \<le> n0 + t \<longrightarrow> Get s1 None n1 k = Returns ((v, None), s1))
     \<and> (n0 \<le> n1 \<and> n1 < time_Unix (Unix (n0 + t)) \<longrightarrow>
          (\<exists>d. TTL s1 None n1 k = Returns ((d, None), s1) \<and> 0 < d \<and> d \<le> t))
     \<and> (second \<le> t \<and> Unix (n0 + t) + unixToInternal < 2 ^ 63 \<longrightarrow>
          n0 < time_Unix (Unix (n0 + t)))"
proof -
  let ?e = "Unix (n0 + t)"
  let ?s1 = "s\<lparr>db := Some (exec_upsert rel k
                \<lparr>val = v, kind = ''string'', expires_at = Some ?e\<rparr>)\<rparr>"
  have set: "Set s None n0 k v t = Returns (None, ?s1)"
    using assms by (simp add: Set_def Add_def)
  have get: "Get ?s1 None n1 k = Returns ((v, None), ?s1)" if "n1 \<le> n0 + t"
    using Unix_mono [OF that] by (simp add: Get_def query_row_upsert_same)
  have ttl: "\<exists>d. TTL ?s1 None n1 k = Returns ((d, None), ?s1) \<and> 0 < d \<and> d \<le> t"
    if "n0 \<le> n1" and "n1 < time_Unix ?e"
  proof -
    have le: "time_Unix ?e \<le> n0 + t" by (rule time_Unix_Unix_le)
    have "TTL ?s1 None n1 k = Returns ((Sub (time_Unix ?e) n1, None), ?s1)"
      using that by (simp add: TTL_def query_row_upsert_same Before_def)
    moreover have "0 < Sub (time_Unix ?e) n1" "Sub (time_Unix ?e) n1 \<le> t"
      using that le by (simp_all add: Sub_def maxDuration_def minDuration_def Let_def)
    ultimately show ?thesis by blast
  qed
  have far: "n0 < time_Unix ?e" if "second \<le> t" and "?e + unixToInternal < 2 ^ 63"
    using time_Unix_Unix_gt [OF that(2)] that(1) by linarith
  show ?thesis
    using set get ttl far by blast
qed

text \<open>
  The theorem for a TTL of two seconds set at 5.2 s and read at once.
\<close>

theorem set_with_ttl_then_reads_witness:
  "Set (opened []) None 5200000000 ''k'' ''v'' 2000000000
     = Returns (None, opened [(''k'', \<lparr>val = ''v'', kind = ''string'', expires_at = Some 7\<rparr>)])
   \<and> Get (opened [(''k'', \<lparr>val = ''v'', kind = ''string'', expires_at = Some 7\<rparr>)])
        None 5200000000 ''k''
     = Returns ((''v'', None),
         opened [(''k'', \<lparr>val = ''v'', kind = ''string'', expires_at = Some 7\<rparr>)])
   \<and> (\<exists>d. TTL (opened [(''k'', \<lparr>val = ''v'', kind = ''string'', expires_at = Some 7\<rparr>)])
             None 5200000000 ''k''
          = Returns ((d, None),
              opened [(''k'', \<lparr>val = ''v'', kind = ''string'', expires_at = Some 7\<rparr>)])
        \<and> 0 < d \<and> d \<le> 2000000000)"
proof -
  have h1: "db (opened []) = Some []"
    by (simp add: opened_def)
  have h2: "(0::int) < 2000000000"
    by simp
  have s1: "Set (opened []) None 5200000000 ''k'' ''v'' 2000000000
     = Returns (None, opened [(''k'', \<lparr>val = ''v'', kind = ''string'', expires_at = Some 7\<rparr>)])"
    by (simp add: Set_def opened_def exec_upsert_def Add_def Unix_def second_def)
  have u: "time_Unix (Unix 7200000000) = 7000000000"
    by (simp add: time_Unix_def unixToInternal_def Unix_def second_def)
  show ?thesis
    using set_with_ttl_then_reads [OF h1 h2, of 5200000000 "''k''" "''v''" 5200000000]
    by (simp add: s1 u)
qed

text \<open>
  The claim as first stated fails for a TTL of half a second set at 5.2 s: the stored
  expiry is second 5, and \<open>TTL\<close> called at the same instant answers KeyNotFound and
  starts a deletion.
\<close>

theorem short_ttl_counterexample:
  "Set (opened []) None 5200000000 ''k'' ''v'' 500000000
     = Returns (None, opened [(''k'', \<lparr>val = ''v'', kind = ''string'', expires_at = Some 5\<rparr>)])
   \<and> TTL (opened [(''k'', \<lparr>val = ''v'', kind = ''string'', expires_at = Some 5\<rparr>)])
        None 5200000000 ''k''
     = Returns ((0, Some ErrKeyNotFound),
         (opened [(''k'', \<lparr>val = ''v'', kind = ''string'', expires_at = Some 5\<rparr>)])
           \<lparr>pending := [''k'']\<rparr>)"
  by (simp add: Set_def TTL_def opened_def exec_upsert_def query_row_def Add_def Unix_def
      time_Unix_def unixToInternal_def second_def Before_def)

section \<open>A permanent key\<close>

lemma map_of_filter_keeps:
  "map_of rel k = Some r \<Longrightarrow> P (k, r) \<Longrightarrow> map_of (filter P rel) k = Some r"
  by (induction rel) (auto split: if_splits)

lemma query_row_delete_other:
  "k' \<noteq> k \<Longrightarrow> query_row (exec_delete rel k') k = query_row rel k"
  by (simp add: query_row_def exec_delete_def map_of_filter_fst_other)

lemma holds_permanent_db_same: "db s' = db s \<Longrightarrow> holds_permanent s' k r = holds_permanent s k r"
  by (simp add: holds_permanent_def)

lemma holds_permanent_step:
  assumes "holds_permanent s k r" and "\<not> writes k s x"
  shows "holds_permanent (step like s x) k r"
proof (cases x)
  case (OpSet f now k' v ttl)
  with assms show ?thesis
    by (auto simp: holds_permanent_def state_after_def Set_def Let_def query_row_upsert_other
        split: option.splits)
next
  case (OpGet f now k')
  with assms show ?thesis
    by (auto simp: holds_permanent_def state_after_def Get_def split: option.splits)
next
  case (OpDel f k')
  with assms show ?thesis
    by (auto simp: holds_permanent_def state_after_def Del_def query_row_delete_other
        split: option.splits)
next
  case (OpExists f now k')
  with assms show ?thesis
    by (auto simp: holds_permanent_def state_after_def Exists_def split: option.splits)
next
  case (OpTTL f now k')
  with assms show ?thesis
    by (auto simp: holds_permanent_def state_after_def TTL_def Let_def split: option.splits)
next
  case (OpKeys env p)
  with assms(1) show ?thesis
    using holds_permanent_db_same [OF db_Keys] by simp
next
  case (OpRunCleanup interval)
  with assms show ?thesis
    by (auto simp: holds_permanent_def RunCleanup_def split: option.splits)
next
  case (OpClose f)
  with assms show ?thesis
    by (auto simp: holds_permanent_def Close_def Let_def split: option.splits)
next
  case (OpDetached i f)
  with assms show ?thesis
    by (auto simp: holds_permanent_def run_detached_def Del_def Let_def query_row_delete_other
        split: option.splits)
next
  case (OpTick f t)
  with assms show ?thesis
    by (auto simp: holds_permanent_def cleanup_tick_def exec_delete_expired_def Let_def
        query_row_def map_of_filter_keeps split: option.splits)
qed

lemma holds_permanent_run:
  "holds_permanent s k r \<Longrightarrow> no_write like k s ops \<Longrightarrow> holds_permanent (run like s ops) k r"
  unfolding run_def
  by (induction ops arbitrary: s) (simp_all add: holds_permanent_step)

text \<open>
  C7. For every key and value, \<open>Set\<close> with the TTL 0 succeeds, and \<open>TTL\<close> of the key on
  the store it leaves returns the duration \<open>-1\<close>, the no-expiration sentinel, with no
  error, whatever the store held before and whenever it is called. The same holds after
  any history of calls and goroutine steps in between that does not write the key.
\<close>

theorem set_permanent_then_TTL:
  assumes "db s = Some rel"
  shows "\<exists>s1. Set s None n0 k v 0 = Returns (None, s1)
           \<and> TTL s1 None n1 k = Returns ((- 1, None), s1)
           \<and> (no_write like k s1 ops \<longrightarrow>
                TTL (run like s1 ops) None n1 k = Returns ((- 1, None), run like s1 ops))"
proof -
  let ?r = "\<lparr>val = v, kind = ''string'', expires_at = None\<rparr>"
  let ?s1 = "s\<lparr>db := Some (exec_upsert rel k ?r)\<rparr>"
  have set: "Set s None n0 k v 0 = Returns (None, ?s1)"
    using assms by (simp add: Set_def)
  have hp: "holds_permanent ?s1 k ?r"
    by (simp add: holds_permanent_def query_row_upsert_same)
  have ttl: "TTL s' None n1 k = Returns ((- 1, None), s')" if "holds_permanent s' k ?r" for s'
    using that by (auto simp: holds_permanent_def TTL_def split: option.splits)
  have "TTL (run like ?s1 ops) None n1 k = Returns ((- 1, None), run like ?s1 ops)"
    if "no_write like k ?s1 ops"
    using ttl [OF holds_permanent_run [OF hp that]] .
  with set ttl [OF hp] show ?thesis by blast
qed

text \<open>
  The theorem on a store that held an expired record under the key, with a \<open>Set\<close> of
  another key and a \<open>Get\<close> of the key in between.
\<close>

theorem set_permanent_then_TTL_witness:
  "Set (opened [(''k'', \<lparr>val = ''old'', kind = ''string'', expires_at = Some 5\<rparr>)])
      None 9000000000 ''k'' ''v'' 0
     = Returns (None, opened [(''k'', \<lparr>val = ''v'', kind = ''string'', expires_at = None\<rparr>)])
   \<and> no_write (\<lambda>pat k. True) ''k''
        (opened [(''k'', \<lparr>val = ''v'', kind = ''string'', expires_at = None\<rparr>)])
        [OpSet None 9000000000 ''j'' ''w'' 1000000000, OpGet None 9000000000 ''k'']
   \<and> TTL (run (\<lambda>pat k. True)
             (opened [(''k'', \<lparr>val = ''v'', kind = ''string'', expires_at = None\<rparr>)])
             [OpSet None 9000000000 ''j'' ''w'' 1000000000, OpGet None 9000000000 ''k''])
        None 9000000000 ''k''
     = Returns ((- 1, None),
         run (\<lambda>pat k. True)
           (opened [(''k'', \<lparr>val = ''v'', kind = ''string'', expires_at = None\<rparr>)])
           [OpSet None 9000000000 ''j'' ''w'' 1000000000, OpGet None 9000000000 ''k''])"
proof -
  have h1: "db (opened [(''k'', \<lparr>val = ''old'', kind = ''string'', expires_at = Some 5\<rparr>)])
              = Some [(''k'', \<lparr>val = ''old'', kind = ''string'', expires_at = Some 5\<rparr>)]"
    by (simp add: opened_def)
  have s: "Set (opened [(''k'', \<lparr>val = ''old'', kind = ''string'', expires_at = Some 5\<rparr>)])
      None 9000000000 ''k'' ''v'' 0
     = Returns (None, opened [(''k'', \<lparr>val = ''v'', kind = ''string'', expires_at = None\<rparr>)])"
    by (simp add: Set_def opened_def exec_upsert_def)
  have n: "no_write (\<lambda>pat k. True) ''k''
        (opened [(''k'', \<lparr>val = ''v'', kind = ''string'', expires_at = None\<rparr>)])
        [OpSet None 9000000000 ''j'' ''w'' 1000000000, OpGet None 9000000000 ''k'']"
    by simp
  obtain s1 where
    a: "Set (opened [(''k'', \<lparr>val = ''old'', kind = ''string'', expires_at = Some 5\<rparr>)])
          None 9000000000 ''k'' ''v'' 0 = Returns (None, s1)"
    and b: "no_write (\<lambda>pat k. True) ''k'' s1
              [OpSet None 9000000000 ''j'' ''w'' 1000000000, OpGet None 9000000000 ''k'']
            \<longrightarrow> TTL (run (\<lambda>pat k. True) s1
                  [OpSet None 9000000000 ''j'' ''w'' 1000000000, OpGet None 9000000000 ''k''])
                  None 9000000000 ''k''
                = Returns ((- 1, None), run (\<lambda>pat k. True) s1
                  [OpSet None 9000000000 ''j'' ''w'' 1000000000, OpGet None 9000000000 ''k''])"
    using set_permanent_then_TTL [OF h1, of 9000000000 "''k''" "''v''" 9000000000
        "\<lambda>pat k. True"
        "[OpSet None 9000000000 ''j'' ''w'' 1000000000, OpGet None 9000000000 ''k'']"]
    by blast
  have e: "s1 = opened [(''k'', \<lparr>val = ''v'', kind = ''string'', expires_at = None\<rparr>)]"
    using a s by simp
  show ?thesis
    using s n b unfolding e by blast
qed

section \<open>Deletion\<close>

text \<open>
  C8. For every key, present or absent, \<open>Del\<close> returns no error when the collaborator
  does not fail, and the key is absent afterwards. \<open>Del\<close> is idempotent: a second
  \<open>Del\<close> of the key returns no error again and leaves the store exactly as the first
  one left it.
\<close>

theorem del_idempotent:
  assumes "db s = Some rel"
  shows "\<exists>s1. Del s None k = Returns (None, s1)
           \<and> Del s1 None k = Returns (None, s1)
           \<and> db s1 = Some (exec_delete rel k)
           \<and> query_row (exec_delete rel k) k = None"
  using assms by (simp add: Del_def exec_delete_idem query_row_delete_same)

text \<open>
  The theorem on a store that holds the key.
\<close>

theorem del_idempotent_witness:
  "Del (opened [(''k'', \<lparr>val = ''v'', kind = ''string'', expires_at = None\<rparr>)]) None ''k''
     = Returns (None, opened [])
   \<and> Del (opened []) None ''k'' = Returns (None, opened [])"
proof -
  have h1: "db (opened [(''k'', \<lparr>val = ''v'', kind = ''string'', expires_at = None\<rparr>)])
              = Some [(''k'', \<lparr>val = ''v'', kind = ''string'', expires_at = None\<rparr>)]"
    by (simp add: opened_def)
  have d: "Del (opened [(''k'', \<lparr>val = ''v'', kind = ''string'', expires_at = None\<rparr>)]) None ''k''
     = Returns (None, opened [])"
    by (simp add: Del_def opened_def exec_delete_def)
  show ?thesis
    using del_idempotent [OF h1, of "''k''"] by (simp add: d)
qed

section \<open>The pattern translator\<close>

lemma Replace_concat:
  "Replace oldnew p = concat (map (\<lambda>c. case map_of oldnew c of None \<Rightarrow> [c] | Some n \<Rightarrow> n) p)"
  by (induction p) simp_all

lemma globToSQLLike_bytes: "globToSQLLike p = concat (map spec_translate_byte p)"
  unfolding globToSQLLike_def Replace_concat
  by (rule arg_cong [where f = concat], rule map_cong) (simp_all add: spec_translate_byte_def)

lemma spec_translate_bytes: "spec_translate p = concat (map spec_translate_byte p)"
  by (induction p)
    (simp_all add: spec_translate_def spec_escape_literals_def spec_map_wildcards_def spec_translate_byte_def)

text \<open>
  C4. \<open>globToSQLLike\<close> is a function of its input alone, defined on every string. It
  rewrites the input character by character: \<open>%\<close> becomes a backslash and \<open>%\<close>, \<open>_\<close>
  becomes a backslash and \<open>_\<close>, \<open>*\<close> becomes \<open>%\<close>, \<open>?\<close> becomes \<open>_\<close>, and every other
  character is copied. The output of one character is never rewritten again, so the
  result is the specification's two passes, escaping first and mapping second, and the
  translation of a concatenation is the concatenation of the translations.
\<close>

theorem pattern_translator_bytewise:
  "globToSQLLike p = concat (map spec_translate_byte p)
   \<and> globToSQLLike p = spec_translate p
   \<and> globToSQLLike (p @ q) = globToSQLLike p @ globToSQLLike q"
  by (simp add: globToSQLLike_bytes spec_translate_bytes)

text \<open>
  The translation of a pattern that holds all four special characters.
\<close>

theorem pattern_translator_bytewise_witness:
  "globToSQLLike ''50%off_*?'' = ''50'' @ [CHR 0x5C] @ ''%off'' @ [CHR 0x5C] @ ''_%_''
   \<and> spec_translate ''50%off_*?'' = ''50'' @ [CHR 0x5C] @ ''%off'' @ [CHR 0x5C] @ ''_%_''"
  using pattern_translator_bytewise [of "''50%off_*?''" "[]"]
  by (auto simp: spec_translate_byte_def)

section \<open>The background sweeper\<close>

lemma observe_Set_out: "observe (Set (s\<lparr>out := x\<rparr>) f now k v ttl) = observe (Set s f now k v ttl)"
  by (simp add: observe_def Set_def Let_def split: option.splits)

lemma observe_Get_out: "observe (Get (s\<lparr>out := x\<rparr>) f now k) = observe (Get s f now k)"
  by (simp add: observe_def Get_def split: option.splits)

lemma observe_Del_out: "observe (Del (s\<lparr>out := x\<rparr>) f k) = observe (Del s f k)"
  by (simp add: observe_def Del_def split: option.splits)

lemma observe_Exists_out: "observe (Exists (s\<lparr>out := x\<rparr>) f now k) = observe (Exists s f now k)"
  by (simp add: observe_def Exists_def split: option.splits)

lemma observe_TTL_out: "observe (TTL (s\<lparr>out := x\<rparr>) f now k) = observe (TTL s f now k)"
  by (simp add: observe_def TTL_def Let_def split: option.splits)

lemma observe_Keys_out:
  "observe (Keys like (s\<lparr>out := x\<rparr>) env p) = observe (Keys like s env p)"
proof (cases "db s")
  case None
  then show ?thesis by (simp add: observe_def Keys_def Keys_run_def)
next
  case (Some rel)
  then have d: "db (s\<lparr>out := x\<rparr>) = Some rel" by simp
  show ?thesis
  proof (cases "query_fault env")
    case (Some e)
    show ?thesis
      by (simp add: observe_def Keys_def Keys_run_query_fault [OF d Some]
          Keys_run_query_fault [OF \<open>db s = Some rel\<close> Some])
  next
    case None
    show ?thesis
    proof (cases "rows_err env")
      case (Some ne)
      obtain n e where ne: "ne = (n, e)" by (cases ne)
      show ?thesis
        using Some
        by (simp add: observe_def Keys_def ne Keys_run_rows_err [OF d None]
            Keys_run_rows_err [OF \<open>db s = Some rel\<close> None])
    next
      case no: None
      show ?thesis
        by (simp add: observe_def Keys_def Keys_run_no_err [OF d None no]
            Keys_run_no_err [OF \<open>db s = Some rel\<close> None no])
    qed
  qed
qed

text \<open>
  C9. \<open>RunCleanup\<close> with an interval less than or equal to zero starts no sweeper: the
  list of running sweepers is as before. The rejection is reported: one line is printed,
  and nothing else in the store changes. The call returns, and the store is as usable as
  before: each of \<open>Set\<close>, \<open>Get\<close>, \<open>Del\<close>, \<open>Exists\<close>, \<open>TTL\<close> and \<open>Keys\<close> gives on the
  store after the rejected call the result it gives on the store before it, and leaves
  the same relation and the same detached deletions, so expired records are still
  answered as absent and enqueued for deletion by the reads.
\<close>

theorem cleanup_rejects_nonpositive_interval:
  assumes "interval \<le> 0"
  shows "sweepers (RunCleanup s interval) = sweepers s
     \<and> RunCleanup s interval
         = s\<lparr>out := out s @ [if db s = None then NilDbMsg else BadIntervalMsg]\<rparr>
     \<and> observe (Set (RunCleanup s interval) f now k v ttl) = observe (Set s f now k v ttl)
     \<and> observe (Get (RunCleanup s interval) f now k) = observe (Get s f now k)
     \<and> observe (Del (RunCleanup s interval) f k) = observe (Del s f k)
     \<and> observe (Exists (RunCleanup s interval) f now k) = observe (Exists s f now k)
     \<and> observe (TTL (RunCleanup s interval) f now k) = observe (TTL s f now k)
     \<and> observe (Keys like (RunCleanup s interval) env p) = observe (Keys like s env p)"
proof -
  have r: "RunCleanup s interval
             = s\<lparr>out := out s @ [if db s = None then NilDbMsg else BadIntervalMsg]\<rparr>"
    using assms by (simp add: RunCleanup_def)
  show ?thesis
    unfolding r
    by (simp add: observe_Set_out observe_Get_out observe_Del_out observe_Exists_out
        observe_TTL_out observe_Keys_out)
qed

text \<open>
  The theorem for the interval 0 on a store that holds a record expired at second 5: the
  rejected call prints its line, no sweeper runs, and a \<open>Get\<close> at second 9 still answers
  KeyNotFound and enqueues the deletion.
\<close>

theorem cleanup_rejects_nonpositive_interval_witness:
  "RunCleanup (opened [(''k'', \<lparr>val = ''v'', kind = ''string'', expires_at = Some 5\<rparr>)]) 0
     = (opened [(''k'', \<lparr>val = ''v'', kind = ''string'', expires_at = Some 5\<rparr>)])
         \<lparr>out := [BadIntervalMsg]\<rparr>
   \<and> sweepers
        (RunCleanup (opened [(''k'', \<lparr>val = ''v'', kind = ''string'', expires_at = Some 5\<rparr>)]) 0)
       = []
   \<and> observe
        (Get (RunCleanup (opened [(''k'', \<lparr>val = ''v'', kind = ''string'', expires_at = Some 5\<rparr>)]) 0)
           None 9000000000 ''k'')
       = Returns (([], Some ErrKeyNotFound),
           (opened [(''k'', \<lparr>val = ''v'', kind = ''string'', expires_at = Some 5\<rparr>)])
             \<lparr>pending := [''k'']\<rparr>)"
proof -
  have h: "(0::int) \<le> 0"
    by simp
  have g: "observe (Get (opened [(''k'', \<lparr>val = ''v'', kind = ''string'', expires_at = Some 5\<rparr>)])
             None 9000000000 ''k'')
           = Returns (([], Some ErrKeyNotFound),
           (opened [(''k'', \<lparr>val = ''v'', kind = ''string'', expires_at = Some 5\<rparr>)])
             \<lparr>pending := [''k'']\<rparr>)"
    by (simp add: observe_def Get_def opened_def query_row_def Unix_def second_def)
  have o: "db (opened rel) \<noteq> None" "out (opened rel) = []" "sweepers (opened rel) = []" for rel
    by (simp_all add: opened_def)
  note w = cleanup_rejects_nonpositive_interval [OF h,
        of "opened [(''k'', \<lparr>val = ''v'', kind = ''string'', expires_at = Some 5\<rparr>)]"
           None 9000000000 "''k''" "''v''" 0 "\<lambda>pat k. True"
           "\<lparr>query_fault = None, scan_fault = (\<lambda>k. None), rows_err = None,
             clock = (\<lambda>k. 0)\<rparr>" "''*''"]
  have a: "sweepers
        (RunCleanup (opened [(''k'', \<lparr>val = ''v'', kind = ''string'', expires_at = Some 5\<rparr>)]) 0)
       = []"
    using w [THEN conjunct1] by (simp add: o)
  have b: "RunCleanup (opened [(''k'', \<lparr>val = ''v'', kind = ''string'', expires_at = Some 5\<rparr>)]) 0
     = (opened [(''k'', \<lparr>val = ''v'', kind = ''string'', expires_at = Some 5\<rparr>)])
         \<lparr>out := [BadIntervalMsg]\<rparr>"
    using w [THEN conjunct2, THEN conjunct1] by (simp add: o)
  have c: "observe
        (Get (RunCleanup (opened [(''k'', \<lparr>val = ''v'', kind = ''string'', expires_at = Some 5\<rparr>)]) 0)
           None 9000000000 ''k'')
       = Returns (([], Some ErrKeyNotFound),
           (opened [(''k'', \<lparr>val = ''v'', kind = ''string'', expires_at = Some 5\<rparr>)])
             \<lparr>pending := [''k'']\<rparr>)"
    using w [THEN conjunct2, THEN conjunct2, THEN conjunct2, THEN conjunct1] g
    by (rule trans)
  show ?thesis
    using a b c by blast
qed


section \<open>Only strings are written\<close>

lemma all_string_db_same: "db s' = db s \<Longrightarrow> all_string s' = all_string s"
  by (simp add: all_string_def)

lemma all_string_Set: "all_string s \<Longrightarrow> all_string (state_after s (Set s f now k v ttl))"
  by (auto simp: all_string_def state_after_def Set_def exec_upsert_def Let_def list_all_iff
      split: option.splits)

lemma all_string_Get: "all_string s \<Longrightarrow> all_string (state_after s (Get s f now k))"
  by (auto simp: all_string_def state_after_def Get_def split: option.splits)

lemma all_string_Del: "all_string s \<Longrightarrow> all_string (state_after s (Del s f k))"
  by (auto simp: all_string_def state_after_def Del_def exec_delete_def list_all_iff
      split: option.splits)

lemma all_string_Exists: "all_string s \<Longrightarrow> all_string (state_after s (Exists s f now k))"
  by (auto simp: all_string_def state_after_def Exists_def split: option.splits)

lemma all_string_TTL: "all_string s \<Longrightarrow> all_string (state_after s (TTL s f now k))"
  by (auto simp: all_string_def state_after_def TTL_def Let_def split: option.splits)

lemma all_string_run_detached: "all_string s \<Longrightarrow> all_string (run_detached s i f)"
  by (auto simp: all_string_def run_detached_def Del_def exec_delete_def Let_def list_all_iff
      split: option.splits)

lemma all_string_cleanup_tick: "all_string s \<Longrightarrow> all_string (cleanup_tick s f t)"
  by (auto simp: all_string_def cleanup_tick_def exec_delete_expired_def Let_def list_all_iff
      split: option.splits)

lemma all_string_RunCleanup: "all_string s \<Longrightarrow> all_string (RunCleanup s interval)"
  by (simp add: all_string_def RunCleanup_def)

lemma all_string_Close: "all_string s \<Longrightarrow> all_string (snd (Close s f))"
  by (simp add: all_string_def Close_def Let_def)

lemma all_string_Keys: "all_string s \<Longrightarrow> all_string (state_after s (Keys like s env p))"
  using all_string_db_same [OF db_Keys] by blast

lemma all_string_step: "all_string s \<Longrightarrow> all_string (step like s x)"
  by (cases x)
    (simp_all add: all_string_Set all_string_Get all_string_Del all_string_Exists
      all_string_TTL all_string_Keys all_string_RunCleanup all_string_Close
      all_string_run_detached all_string_cleanup_tick)

lemma all_string_run: "all_string s \<Longrightarrow> all_string (run like s ops)"
  unfolding run_def by (induction ops arbitrary: s) (simp_all add: all_string_step)

lemma all_string_row:
  assumes "all_string s" and "db s = Some rel" and "query_row rel k = Some r"
  shows "kind r = ''string''"
proof -
  have "(k, r) \<in> set rel"
    using assms(3) by (simp add: query_row_def map_of_SomeD)
  with assms(1,2) show ?thesis
    by (auto simp: all_string_def list_all_iff)
qed

lemma all_string_no_wrong_type:
  assumes "all_string s"
  shows "err_of (Get s f now k) \<noteq> Some ErrWrongType"
    and "err_of (TTL s f now k) \<noteq> Some ErrWrongType"
  using all_string_row [OF assms]
  by (auto simp: err_of_def Get_def TTL_def Let_def split: option.splits)

text \<open>
  C10. A store opened on a database file that holds no relation of its name yet has,
  after any history of calls of \<open>Set\<close>, \<open>Get\<close>, \<open>Del\<close>, \<open>Exists\<close>, \<open>TTL\<close>, \<open>Keys\<close>,
  \<open>RunCleanup\<close> and \<open>Close\<close> and of steps of the goroutines they start, with or
  without collaborator failures, only records of kind string: \<open>Set\<close> is the only
  operation that writes a record, and it writes the kind string. In every such state
  \<open>Get\<close> and \<open>TTL\<close> never return the WrongType error.
\<close>

theorem public_surface_only_strings:
  assumes "Open env path tbl = Inr s0" and "existing env = None"
  shows "all_string (run like s0 ops)
     \<and> err_of (Get (run like s0 ops) f now k) \<noteq> Some ErrWrongType
     \<and> err_of (TTL (run like s0 ops) f now k) \<noteq> Some ErrWrongType"
proof -
  have "all_string s0"
    using assms by (auto simp: Open_def all_string_def split: if_splits option.splits)
  then have "all_string (run like s0 ops)"
    by (rule all_string_run)
  then show ?thesis
    by (simp add: all_string_no_wrong_type)
qed

text \<open>
  The theorem for a store opened in memory, after a \<open>Set\<close> and a \<open>Get\<close>.
\<close>

theorem public_surface_only_strings_witness:
  "Open \<lparr>open_fault = None, ping_fault = None, create_fault = None, existing = None\<rparr>
      '':memory:'' ''kv'' = Inr (opened [])
   \<and> run (\<lambda>pat k. True) (opened [])
        [OpSet None 1000000000 ''k'' ''v'' 0, OpGet None 2000000000 ''k'']
      = opened [(''k'', \<lparr>val = ''v'', kind = ''string'', expires_at = None\<rparr>)]
   \<and> all_string (run (\<lambda>pat k. True) (opened [])
        [OpSet None 1000000000 ''k'' ''v'' 0, OpGet None 2000000000 ''k''])
   \<and> err_of (Get (run (\<lambda>pat k. True) (opened [])
        [OpSet None 1000000000 ''k'' ''v'' 0, OpGet None 2000000000 ''k''])
        None 3000000000 ''k'') \<noteq> Some ErrWrongType
   \<and> err_of (TTL (run (\<lambda>pat k. True) (opened [])
        [OpSet None 1000000000 ''k'' ''v'' 0, OpGet None 2000000000 ''k''])
        None 3000000000 ''k'') \<noteq> Some ErrWrongType"
proof -
  have h1: "Open \<lparr>open_fault = None, ping_fault = None, create_fault = None, existing = None\<rparr>
      '':memory:'' ''kv'' = Inr (opened [])"
    by (simp add: Open_def opened_def)
  have h2: "existing \<lparr>open_fault = None, ping_fault = None, create_fault = None,
      existing = None\<rparr> = None"
    by simp
  have r: "run (\<lambda>pat k. True) (opened [])
        [OpSet None 1000000000 ''k'' ''v'' 0, OpGet None 2000000000 ''k'']
      = opened [(''k'', \<lparr>val = ''v'', kind = ''string'', expires_at = None\<rparr>)]"
    by (simp add: run_def state_after_def Set_def Get_def opened_def exec_upsert_def
        query_row_def)
  show ?thesis
    using public_surface_only_strings [OF h1 h2, of "\<lambda>pat k. True"
        "[OpSet None 1000000000 ''k'' ''v'' 0, OpGet None 2000000000 ''k'']"
        None 3000000000 "''k''"] h1 r
    by simp
qed

end
